theory Spec2Isabelle
  imports
    Main
    "HOL-Library.Char_ord"
    "HOL-Library.List_Lexorder"
    "HOL-Library.Multiset"
begin

section \<open>The function-webhook commands of functions_cmd.go\<close>

text \<open>
  The four workflows of \<^verbatim>\<open>functions_cmd.go\<close> (create, read, update, delete) are
  embedded as functions that take the environment \<^verbatim>\<open>e *env\<close> and return the
  outcome of the Go function together with the environment it leaves behind. The
  parameter \<^verbatim>\<open>ctx *context\<close> is used by none of them and is left out.
  A Go string is a byte sequence, here a \<^typ>\<open>string\<close>; with
  \<^verbatim>\<open>HOL-Library.Char_ord\<close> and \<^verbatim>\<open>HOL-Library.List_Lexorder\<close> the
  order \<open>\<le>\<close> on \<^typ>\<open>string\<close> is the bytewise lexicographic order that Go's
  \<^verbatim>\<open><\<close> on strings and \<^verbatim>\<open>sort.Strings\<close> use.
\<close>

subsection \<open>Data\<close>

text \<open>A Go \<^verbatim>\<open>error\<close> value is represented by its message.\<close>

type_synonym error = string

text \<open>
  \<^verbatim>\<open>type functionHook struct\<close>: three strings, each tagged
  \<^verbatim>\<open>json:"...,omitempty"\<close>.
\<close>

record functionHook =
  FunctionName :: string
  URL :: string
  Warning :: string

text \<open>\<^verbatim>\<open>var f functionHook\<close>: the zero value.\<close>

definition zero_functionHook :: functionHook where
  "zero_functionHook = \<lparr>FunctionName = [], URL = [], Warning = []\<rparr>"

text \<open>
  A JSON object whose values are strings, as the list of its members in the order
  they are written.
\<close>

type_synonym json = "(string \<times> string) list"

text \<open>
  What \<^verbatim>\<open>encoding/json\<close> writes for a \<^verbatim>\<open>functionHook\<close>: the fields in
  declaration order under their tag names, a field left out when it is the empty
  string (\<^verbatim>\<open>omitempty\<close>).
\<close>

definition marshal_functionHook :: "functionHook \<Rightarrow> json" where
  "marshal_functionHook f =
     (if FunctionName f \<noteq> [] then [(''functionName'', FunctionName f)] else []) @
     (if URL f \<noteq> [] then [(''url'', URL f)] else []) @
     (if Warning f \<noteq> [] then [(''warning'', Warning f)] else [])"

text \<open>\<^verbatim>\<open>map[string]interface{}{"__op": "Delete"}\<close> as JSON.\<close>

definition delete_op :: json where
  "delete_op = [(''__op'', ''Delete'')]"

text \<open>\<^verbatim>\<open>type functionHooksCmd struct\<close>; a nil \<^verbatim>\<open>*functionHook\<close> is \<open>None\<close>.\<close>

record functionHooksCmd =
  All :: bool
  Function :: "functionHook option"

subsection \<open>The environment\<close>

text \<open>
  The type \<^verbatim>\<open>env\<close> is declared elsewhere in the repository; the workflows use its
  fields \<^verbatim>\<open>In\<close>, \<^verbatim>\<open>Out\<close>, \<^verbatim>\<open>Err\<close> and \<^verbatim>\<open>ParseAPIClient\<close>.

  \<^item> \<open>In\<close> is the input stream, as the list of the tokens that the successive calls
    \<^verbatim>\<open>fmt.Fscanf(e.In, "%s\n", &v)\<close> find on it. The entry \<open>''''\<close> stands for a
    call that finds no token (a blank line), and so does the exhausted list (end of
    input): such a call stores nothing and leaves \<^verbatim>\<open>v\<close> as it was.
  \<^item> Everything written to \<^verbatim>\<open>e.Out\<close> and \<^verbatim>\<open>e.Err\<close> and every request made
    through \<^verbatim>\<open>e.ParseAPIClient\<close> is appended to \<open>trace\<close>, one event per call in
    the order of the calls, so that the order of writes to different streams and the
    number of requests can be read off the final environment.
  \<^item> \<open>ParseAPIClient\<close> answers a request with an error or with the decoded response
    body. \<^typ>\<open>'u\<close> is the type of parsed URLs (\<^verbatim>\<open>*url.URL\<close>). The \<^verbatim>\<open>Results\<close>
    of a GET are a \<^verbatim>\<open>[]*functionHook\<close>: an element can be nil, here \<open>None\<close>.
\<close>

datatype stream = Out | Err

datatype 'u event =
    Printed stream string
  | HttpGet 'u
  | HttpPost 'u json
  | HttpPut 'u json

record 'u client =
  Get :: "'u \<Rightarrow> error + functionHook option list"
  Post :: "'u \<Rightarrow> json \<Rightarrow> error + functionHook"
  Put :: "'u \<Rightarrow> json \<Rightarrow> error + functionHook"

record 'u env =
  In :: "string list"
  ParseAPIClient :: "'u client"
  trace :: "'u event list"

text \<open>
  What the workflows call and this file does not define: the \<^verbatim>\<open>%q\<close> verb of
  \<^verbatim>\<open>fmt\<close> (\<open>quote\<close>), \<^verbatim>\<open>url.Parse\<close> and \<^verbatim>\<open>path.Join\<close> of the Go library, and
  \<^verbatim>\<open>validateURL\<close> and \<^verbatim>\<open>getConfirmation\<close>, which the repository defines in
  another file. They are parameters of the model: every theorem below holds for any
  behaviour of them that meets the hypotheses it states. \<^verbatim>\<open>validateURL\<close> returns
  nil (\<open>None\<close>) or an error; \<^verbatim>\<open>getConfirmation\<close> gets the message and \<^verbatim>\<open>e\<close> and
  returns the answer, with the environment as it leaves it.
\<close>

record 'u deps =
  quote :: "string \<Rightarrow> string"
  url_Parse :: "string \<Rightarrow> error + 'u"
  path_Join :: "string \<Rightarrow> string \<Rightarrow> string"
  validateURL :: "string \<Rightarrow> error option"
  getConfirmation :: "string \<Rightarrow> 'u env \<Rightarrow> bool \<times> 'u env"

text \<open>The outcome of a workflow: it returns nil, returns an error, or panics.\<close>

datatype outcome = Ok | Failed error | Panicked

abbreviation nl :: string where
  "nl \<equiv> [CHR 0x0A]"

subsection \<open>Input and output\<close>

text \<open>\<^verbatim>\<open>fmt.Fprint\<close>, \<^verbatim>\<open>fmt.Fprintf\<close> and \<^verbatim>\<open>fmt.Fprintln\<close> on the formatted text.\<close>

definition Fprint :: "stream \<Rightarrow> string \<Rightarrow> 'u env \<Rightarrow> 'u env" where
  "Fprint w s e = e\<lparr>trace := trace e @ [Printed w s]\<rparr>"

text \<open>
  \<^verbatim>\<open>fmt.Fscanf(e.In, "%s\n", &v)\<close>, given the value \<open>v\<close> of the variable before the
  call: the value of the variable after it, and the environment. The error that
  \<^verbatim>\<open>Fscanf\<close> returns is dropped by every caller.
\<close>

definition Fscanf :: "'u env \<Rightarrow> string \<Rightarrow> string \<times> 'u env" where
  "Fscanf e v =
     (case In e of
        [] \<Rightarrow> (v, e)
      | t # ts \<Rightarrow> (if t = [] then v else t, e\<lparr>In := ts\<rparr>))"

text \<open>The three methods of the client, each leaving its request in the trace.\<close>

definition client_Get ::
  "'u env \<Rightarrow> 'u \<Rightarrow> (error + functionHook option list) \<times> 'u env" where
  "client_Get e u = (Get (ParseAPIClient e) u, e\<lparr>trace := trace e @ [HttpGet u]\<rparr>)"

definition client_Post ::
  "'u env \<Rightarrow> 'u \<Rightarrow> json \<Rightarrow> (error + functionHook) \<times> 'u env" where
  "client_Post e u body =
     (Post (ParseAPIClient e) u body, e\<lparr>trace := trace e @ [HttpPost u body]\<rparr>)"

definition client_Put ::
  "'u env \<Rightarrow> 'u \<Rightarrow> json \<Rightarrow> (error + functionHook) \<times> 'u env" where
  "client_Put e u body =
     (Put (ParseAPIClient e) u body, e\<lparr>trace := trace e @ [HttpPut u body]\<rparr>)"

subsection \<open>The source functions\<close>

text \<open>\<^verbatim>\<open>func (f functionHook) String() string\<close>\<close>

definition functionHook_String :: "'u deps \<Rightarrow> functionHook \<Rightarrow> string" where
  "functionHook_String D f =
     (if URL f \<noteq> [] then
        ''Function name: '' @ quote D (FunctionName f) @ '', URL: '' @ quote D (URL f)
      else ''Function name: '' @ quote D (FunctionName f))"

text \<open>\<^verbatim>\<open>func readFunctionName(e *env) (*functionHook, error)\<close>\<close>

definition readFunctionName :: "'u env \<Rightarrow> (error + functionHook) \<times> 'u env" where
  "readFunctionName e =
     (let f = zero_functionHook;
          e1 = Fprint Out ''Please enter the function name: '' e;
          (name, e2) = Fscanf e1 (FunctionName f);
          f = f\<lparr>FunctionName := name\<rparr>
      in if FunctionName f = [] then (Inl ''Function name cannot be empty'', e2)
         else (Inr f, e2))"

text \<open>\<^verbatim>\<open>func readFunctionParams(e *env) (*functionHook, error)\<close>\<close>

definition readFunctionParams ::
  "'u deps \<Rightarrow> 'u env \<Rightarrow> (error + functionHook) \<times> 'u env" where
  "readFunctionParams D e =
     (case readFunctionName e of
        (Inl err, e1) \<Rightarrow> (Inl err, e1)
      | (Inr f, e1) \<Rightarrow>
          (let e2 = Fprint Out ''URL: https://'' e1;
               (url, e3) = Fscanf e2 (URL f);
               f = f\<lparr>URL := url\<rparr>;
               f = f\<lparr>URL := ''https://'' @ URL f\<rparr>
           in case validateURL D (URL f) of
                Some err \<Rightarrow> (Inl err, e3)
              | None \<Rightarrow> (Inr f, e3)))"

definition defaultFunctionsURL :: string where
  "defaultFunctionsURL = ''/1/hooks/functions''"

text \<open>\<^verbatim>\<open>func (h *functionHooksCmd) functionHooksCreate(e *env, ctx *context) error\<close>\<close>

definition functionHooksCreate ::
  "'u deps \<Rightarrow> functionHooksCmd \<Rightarrow> 'u env \<Rightarrow> outcome \<times> 'u env" where
  "functionHooksCreate D h e =
     (case readFunctionParams D e of
        (Inl err, e1) \<Rightarrow> (Failed err, e1)
      | (Inr params, e1) \<Rightarrow>
          (case url_Parse D defaultFunctionsURL of
             Inl err \<Rightarrow> (Failed err, e1)
           | Inr functionsURL \<Rightarrow>
               (case client_Post e1 functionsURL (marshal_functionHook params) of
                  (Inl err, e2) \<Rightarrow> (Failed err, e2)
                | (Inr res, e2) \<Rightarrow>
                    (let e3 = (if Warning res \<noteq> []
                               then Fprint Err (''WARNING: '' @ Warning res @ nl) e2
                               else e2);
                         e4 = Fprint Out
                               (''Successfully created a webhook function '' @
                                quote D (FunctionName res) @ '' pointing to '' @
                                quote D (URL res) @ nl) e3
                     in (Ok, e4)))))"

text \<open>
  The loop \<^verbatim>\<open>for _, function := range res.Results\<close> of \<^verbatim>\<open>functionHooksRead\<close>,
  from the \<open>output\<close> built so far: \<open>None\<close> when \<^verbatim>\<open>function.String()\<close> dereferences
  a nil pointer.
\<close>

fun render_results ::
  "'u deps \<Rightarrow> string list \<Rightarrow> functionHook option list \<Rightarrow> string list option" where
  "render_results D output [] = Some output"
| "render_results D output (None # rs) = None"
| "render_results D output (Some function # rs) =
     render_results D (output @ [functionHook_String D function]) rs"

text \<open>\<^verbatim>\<open>strings.Join(elems, sep)\<close>\<close>

fun strings_Join :: "string list \<Rightarrow> string \<Rightarrow> string" where
  "strings_Join [] sep = []"
| "strings_Join [x] sep = x"
| "strings_Join (x # y # xs) sep = x @ sep @ strings_Join (y # xs) sep"

text \<open>
  \<^verbatim>\<open>func (h *functionHooksCmd) functionHooksRead(e *env, ctx *context) error\<close>.
  \<^verbatim>\<open>sort.Strings\<close> is \<^const>\<open>sort\<close>: the order on strings is total, so the sorted
  arrangement of a list of strings is unique (lemma \<open>sort_Strings_unique\<close> below).
\<close>

definition functionHooksRead ::
  "'u deps \<Rightarrow> functionHooksCmd \<Rightarrow> 'u env \<Rightarrow> outcome \<times> 'u env" where
  "functionHooksRead D h e =
     (case (if \<not> All h then
              (case readFunctionName e of
                 (Inl err, e1) \<Rightarrow> Inl (err, e1)
               | (Inr funct, e1) \<Rightarrow>
                   Inr (Some funct,
                        path_Join D defaultFunctionsURL (FunctionName funct), e1))
            else Inr (None, defaultFunctionsURL, e)) of
        Inl (err, e1) \<Rightarrow> (Failed err, e1)
      | Inr (function, u, e1) \<Rightarrow>
          (case url_Parse D u of
             Inl err \<Rightarrow> (Failed err, e1)
           | Inr functionsURL \<Rightarrow>
               (case client_Get e1 functionsURL of
                  (Inl err, e2) \<Rightarrow> (Failed err, e2)
                | (Inr Results, e2) \<Rightarrow>
                    (case render_results D [] Results of
                       None \<Rightarrow> (Panicked, e2)
                     | Some output \<Rightarrow>
                         (let output = sort output;
                              body = strings_Join output nl @ nl
                          in if All h then
                               (Ok, Fprint Out body (Fprint Out
                                  (''The following cloudcode or webhook functions are associated with this app:'' @ nl) e2))
                             else
                               (case function of
                                  None \<Rightarrow> (Panicked, e2)
                                | Some f \<Rightarrow>
                                    if length output = 1 then
                                      (Ok, Fprint Out body (Fprint Out
                                         (''You have one function named: '' @
                                          quote D (FunctionName f) @ nl) e2))
                                    else
                                      (Ok, Fprint Out body (Fprint Out
                                         (''The following functions named: '' @
                                          quote D (FunctionName f) @
                                          '' are associated with your app:'' @ nl) e2))))))))"

text \<open>\<^verbatim>\<open>func (h *functionHooksCmd) functionHooksUpdate(e *env, ctx *context) error\<close>\<close>

definition functionHooksUpdate ::
  "'u deps \<Rightarrow> functionHooksCmd \<Rightarrow> 'u env \<Rightarrow> outcome \<times> 'u env" where
  "functionHooksUpdate D h e =
     (case readFunctionParams D e of
        (Inl err, e1) \<Rightarrow> (Failed err, e1)
      | (Inr params, e1) \<Rightarrow>
          (case url_Parse D (path_Join D defaultFunctionsURL (FunctionName params)) of
             Inl err \<Rightarrow> (Failed err, e1)
           | Inr functionsURL \<Rightarrow>
               (case client_Put e1 functionsURL
                       (marshal_functionHook (zero_functionHook\<lparr>URL := URL params\<rparr>)) of
                  (Inl err, e2) \<Rightarrow> (Failed err, e2)
                | (Inr res, e2) \<Rightarrow>
                    (let e3 = (if Warning res \<noteq> []
                               then Fprint Err (''WARNING: '' @ Warning res @ nl) e2
                               else e2);
                         e4 = Fprint Out
                               (''Successfully update the webhook function '' @
                                quote D (FunctionName res) @ '' to point to '' @
                                quote D (URL res) @ nl) e3
                     in (Ok, e4)))))"

text \<open>\<^verbatim>\<open>func (h *functionHooksCmd) functionHooksDelete(e *env, ctx *context) error\<close>\<close>

definition functionHooksDelete ::
  "'u deps \<Rightarrow> functionHooksCmd \<Rightarrow> 'u env \<Rightarrow> outcome \<times> 'u env" where
  "functionHooksDelete D h e =
     (case readFunctionName e of
        (Inl err, e1) \<Rightarrow> (Failed err, e1)
      | (Inr params, e1) \<Rightarrow>
          (case url_Parse D (path_Join D defaultFunctionsURL (FunctionName params)) of
             Inl err \<Rightarrow> (Failed err, e1)
           | Inr functionsURL \<Rightarrow>
               (let confirmMessage =
                      ''Are you sure you want to delete webhook function: '' @
                      quote D (FunctionName params) @ '' (y/n): '';
                    (confirmed, e2) = getConfirmation D confirmMessage e1
                in if confirmed then
                     (case client_Put e2 functionsURL delete_op of
                        (Inl err, e3) \<Rightarrow> (Failed err, e3)
                      | (Inr res, e3) \<Rightarrow>
                          (let e4 = Fprint Out
                                     (''Successfully deleted webhook function '' @
                                      quote D (FunctionName params) @ nl) e3;
                               e5 = (if FunctionName res \<noteq> []
                                     then Fprint Out
                                            (''Function '' @ quote D (FunctionName res) @
                                             '' defined in cloud code will be used henceforth'' @ nl) e4
                                     else e4)
                           in (Ok, e5)))
                   else (Ok, e2))))"

text \<open>\<^verbatim>\<open>func (h *functionHooksCmd) functionHooks(e *env, c *context) error\<close>\<close>

definition functionHooks ::
  "'u deps \<Rightarrow> functionHooksCmd \<Rightarrow> 'u env \<Rightarrow> outcome \<times> 'u env" where
  "functionHooks D h e = (let hp = h; hp = hp\<lparr>All := True\<rparr> in functionHooksRead D hp e)"

subsection \<open>Observations on the trace\<close>

text \<open>The HTTP requests among the events, in order.\<close>

fun is_request :: "'u event \<Rightarrow> bool" where
  "is_request (Printed w s) = False"
| "is_request (HttpGet u) = True"
| "is_request (HttpPost u b) = True"
| "is_request (HttpPut u b) = True"

definition requests :: "'u event list \<Rightarrow> 'u event list" where
  "requests evs = filter is_request evs"


text \<open>The texts written to one stream, in order.\<close>

fun printed_on :: "stream \<Rightarrow> 'u event list \<Rightarrow> string list" where
  "printed_on w [] = []"
| "printed_on w (Printed w' s # evs) =
     (if w' = w then s # printed_on w evs else printed_on w evs)"
| "printed_on w (HttpGet u # evs) = printed_on w evs"
| "printed_on w (HttpPost u b # evs) = printed_on w evs"
| "printed_on w (HttpPut u b # evs) = printed_on w evs"

text \<open>
  The token that the next \<^verbatim>\<open>Fscanf\<close> finds on \<^verbatim>\<open>e.In\<close>; the empty string
  when it finds none.
\<close>

definition next_token :: "'u env \<Rightarrow> string" where
  "next_token e = (case In e of [] \<Rightarrow> [] | t # ts \<Rightarrow> t)"

subsection \<open>A sample instance\<close>

text \<open>
  Stand-ins for the parameters, to run the workflows on concrete inputs: quoting
  that adds the quotation marks and escapes nothing, a URL parser that accepts every
  string and keeps it, a join that puts a slash between its arguments, a validation
  that rejects the bare prefix, and a confirmation that prints the message, scans
  one token and accepts \<open>y\<close>. The sample client answers every request with the same
  results and the same hook.
\<close>

definition sample_deps :: "string deps" where
  "sample_deps =
     \<lparr>quote = (\<lambda>s. [CHR 0x22] @ s @ [CHR 0x22]),
      url_Parse = (\<lambda>s. Inr s),
      path_Join = (\<lambda>a b. a @ ''/'' @ b),
      validateURL =
        (\<lambda>s. if s = ''https://'' then Some ''Please enter a valid https url'' else None),
      getConfirmation =
        (\<lambda>message e. case Fscanf (Fprint Out message e) [] of
                        (confirm, e1) \<Rightarrow> (confirm = ''y'', e1))\<rparr>"

definition sample_client :: "functionHook option list \<Rightarrow> functionHook \<Rightarrow> string client" where
  "sample_client results res =
     \<lparr>Get = (\<lambda>u. Inr results), Post = (\<lambda>u body. Inr res), Put = (\<lambda>u body. Inr res)\<rparr>"

definition sample_env :: "string list \<Rightarrow> string client \<Rightarrow> string env" where
  "sample_env tokens c = \<lparr>In = tokens, ParseAPIClient = c, trace = []\<rparr>"

section \<open>Properties\<close>

subsection \<open>Reading the input\<close>

lemma Fscanf_Cons: "In e = t # ts \<Longrightarrow> Fscanf e v = (if t = [] then v else t, e\<lparr>In := ts\<rparr>)"
  by (simp add: Fscanf_def)

lemma readFunctionName_ok:
  assumes "In e = name # rest" and "name \<noteq> []"
  shows "readFunctionName e =
    (Inr \<lparr>FunctionName = name, URL = [], Warning = []\<rparr>,
     e\<lparr>In := rest, trace := trace e @ [Printed Out ''Please enter the function name: '']\<rparr>)"
  using assms by (simp add: readFunctionName_def Fscanf_def Fprint_def zero_functionHook_def)

lemma readFunctionName_empty:
  assumes "next_token e = []"
  shows "fst (readFunctionName e) = Inl ''Function name cannot be empty''"
    and "trace (snd (readFunctionName e)) = trace e @ [Printed Out ''Please enter the function name: '']"
  using assms
  by (auto simp add: readFunctionName_def Fscanf_def Fprint_def zero_functionHook_def next_token_def
      split: list.splits)

lemma readFunctionParams_ok:
  assumes "In e = name # tok # rest" and "name \<noteq> []"
  shows "readFunctionParams D e =
    (case validateURL D (''https://'' @ tok) of
       Some err \<Rightarrow> Inl err
     | None \<Rightarrow> Inr \<lparr>FunctionName = name, URL = ''https://'' @ tok, Warning = []\<rparr>,
     e\<lparr>In := rest, trace := trace e @ [Printed Out ''Please enter the function name: '',
         Printed Out ''URL: https://'']\<rparr>)"
  using assms
  by (simp add: readFunctionParams_def readFunctionName_ok Fscanf_def Fprint_def split: option.splits)

lemma render_results_Some:
  "render_results D acc (map Some rs) = Some (acc @ map (functionHook_String D) rs)"
  by (induction rs arbitrary: acc) simp_all

lemma sort_Strings_unique:
  fixes xs :: "string list"
  assumes "mset ys = mset xs" and "sorted ys"
  shows "ys = sort xs"
  using assms by (simp add: properties_for_sort)

subsection \<open>What a run does\<close>

lemma functionHooksCreate_run:
  assumes "In e = name # tok # rest" and "name \<noteq> []"
    and "validateURL D (''https://'' @ tok) = None"
    and "url_Parse D defaultFunctionsURL = Inr u"
  shows "functionHooksCreate D h e =
    (case Post (ParseAPIClient e) u [(''functionName'', name), (''url'', ''https://'' @ tok)] of
       Inl err \<Rightarrow>
         (Failed err,
          e\<lparr>In := rest,
            trace := trace e @
              [Printed Out ''Please enter the function name: '', Printed Out ''URL: https://'',
               HttpPost u [(''functionName'', name), (''url'', ''https://'' @ tok)]]\<rparr>)
     | Inr res \<Rightarrow>
         (Ok,
          e\<lparr>In := rest,
            trace := trace e @
              [Printed Out ''Please enter the function name: '', Printed Out ''URL: https://'',
               HttpPost u [(''functionName'', name), (''url'', ''https://'' @ tok)]] @
              (if Warning res \<noteq> [] then [Printed Err (''WARNING: '' @ Warning res @ nl)] else []) @
              [Printed Out (''Successfully created a webhook function '' @
                 quote D (FunctionName res) @ '' pointing to '' @ quote D (URL res) @ nl)]\<rparr>))"
  using assms
  by (simp add: functionHooksCreate_def readFunctionParams_ok client_Post_def Fprint_def
      marshal_functionHook_def split: sum.splits)

lemma functionHooksUpdate_run:
  assumes "In e = name # tok # rest" and "name \<noteq> []"
    and "validateURL D (''https://'' @ tok) = None"
    and "url_Parse D (path_Join D defaultFunctionsURL name) = Inr u"
  shows "functionHooksUpdate D h e =
    (case Put (ParseAPIClient e) u [(''url'', ''https://'' @ tok)] of
       Inl err \<Rightarrow>
         (Failed err,
          e\<lparr>In := rest,
            trace := trace e @
              [Printed Out ''Please enter the function name: '', Printed Out ''URL: https://'',
               HttpPut u [(''url'', ''https://'' @ tok)]]\<rparr>)
     | Inr res \<Rightarrow>
         (Ok,
          e\<lparr>In := rest,
            trace := trace e @
              [Printed Out ''Please enter the function name: '', Printed Out ''URL: https://'',
               HttpPut u [(''url'', ''https://'' @ tok)]] @
              (if Warning res \<noteq> [] then [Printed Err (''WARNING: '' @ Warning res @ nl)] else []) @
              [Printed Out (''Successfully update the webhook function '' @
                 quote D (FunctionName res) @ '' to point to '' @ quote D (URL res) @ nl)]\<rparr>))"
  using assms
  by (simp add: functionHooksUpdate_def readFunctionParams_ok client_Put_def Fprint_def
      marshal_functionHook_def zero_functionHook_def split: sum.splits)

lemma functionHooksDelete_run:
  assumes "In e = name # rest" and "name \<noteq> []"
    and "url_Parse D (path_Join D defaultFunctionsURL name) = Inr u"
    and "getConfirmation D
           (''Are you sure you want to delete webhook function: '' @ quote D name @ '' (y/n): '')
           (e\<lparr>In := rest, trace := trace e @ [Printed Out ''Please enter the function name: '']\<rparr>)
         = (confirmed, e2)"
  shows "functionHooksDelete D h e =
    (if confirmed then
       (case Put (ParseAPIClient e2) u [(''__op'', ''Delete'')] of
          Inl err \<Rightarrow> (Failed err, e2\<lparr>trace := trace e2 @ [HttpPut u [(''__op'', ''Delete'')]]\<rparr>)
        | Inr res \<Rightarrow>
            (Ok, e2\<lparr>trace := trace e2 @
               [HttpPut u [(''__op'', ''Delete'')],
                Printed Out (''Successfully deleted webhook function '' @ quote D name @ nl)] @
               (if FunctionName res \<noteq> []
                then [Printed Out (''Function '' @ quote D (FunctionName res) @
                        '' defined in cloud code will be used henceforth'' @ nl)]
                else [])\<rparr>))
     else (Ok, e2))"
  using assms
  by (simp add: functionHooksDelete_def readFunctionName_ok client_Put_def Fprint_def
      delete_op_def split: sum.splits)

lemma functionHooksRead_run_all:
  assumes "All h"
    and "url_Parse D defaultFunctionsURL = Inr u"
    and "Get (ParseAPIClient e) u = Inr (map Some rs)"
  shows "functionHooksRead D h e =
    (Ok, e\<lparr>trace := trace e @
       [HttpGet u,
        Printed Out (''The following cloudcode or webhook functions are associated with this app:'' @ nl),
        Printed Out (strings_Join (sort (map (functionHook_String D) rs)) nl @ nl)]\<rparr>)"
  using assms
  by (simp add: functionHooksRead_def client_Get_def Fprint_def render_results_Some)

lemma functionHooksRead_run_one:
  assumes "\<not> All h"
    and "In e = name # rest" and "name \<noteq> []"
    and "url_Parse D (path_Join D defaultFunctionsURL name) = Inr u"
    and "Get (ParseAPIClient e) u = Inr (map Some rs)"
  shows "functionHooksRead D h e =
    (Ok, e\<lparr>In := rest, trace := trace e @
       [Printed Out ''Please enter the function name: '',
        HttpGet u,
        Printed Out
          (if length rs = 1 then ''You have one function named: '' @ quote D name @ nl
           else ''The following functions named: '' @ quote D name @
                '' are associated with your app:'' @ nl),
        Printed Out (strings_Join (sort (map (functionHook_String D) rs)) nl @ nl)]\<rparr>)"
  using assms
  by (simp add: functionHooksRead_def readFunctionName_ok client_Get_def Fprint_def
      render_results_Some)


lemma printed_on_append: "printed_on w (xs @ ys) = printed_on w xs @ printed_on w ys"
  by (induction w xs rule: printed_on.induct) simp_all

lemma requests_append: "requests (xs @ ys) = requests xs @ requests ys"
  by (simp add: requests_def)

lemma readFunctionName_Inl:
  assumes "readFunctionName e = (Inl err, e1)"
  shows "err = ''Function name cannot be empty''"
    and "trace e1 = trace e @ [Printed Out ''Please enter the function name: '']"
  using assms
  by (auto simp add: readFunctionName_def Fscanf_def Fprint_def zero_functionHook_def Let_def
      split: list.splits if_splits)

lemma readFunctionName_Inr:
  assumes "readFunctionName e = (Inr f, e1)"
  shows "\<exists>rest. In e = FunctionName f # rest \<and> FunctionName f \<noteq> [] \<and>
           URL f = [] \<and> Warning f = [] \<and>
           e1 = e\<lparr>In := rest, trace := trace e @ [Printed Out ''Please enter the function name: '']\<rparr>"
  using assms
  by (auto simp add: readFunctionName_def Fscanf_def Fprint_def zero_functionHook_def Let_def
      split: list.splits if_splits)

lemma readFunctionParams_Inl:
  assumes "readFunctionParams D e = (Inl err, e1)"
  shows "requests (trace e1) = requests (trace e)"
  using assms
  by (auto simp add: readFunctionParams_def Fscanf_def Fprint_def requests_def Let_def
      split: list.splits if_splits prod.splits sum.splits option.splits
      dest!: readFunctionName_Inr readFunctionName_Inl(2))

lemma readFunctionParams_Inr:
  assumes "readFunctionParams D e = (Inr params, e1)"
  shows "FunctionName params \<noteq> []"
    and "\<exists>tok. URL params = ''https://'' @ tok"
    and "Warning params = []"
    and "validateURL D (URL params) = None"
    and "ParseAPIClient e1 = ParseAPIClient e"
    and "trace e1 = trace e @
           [Printed Out ''Please enter the function name: '', Printed Out ''URL: https://'']"
  using assms
  by (auto simp add: readFunctionParams_def Fscanf_def Fprint_def Let_def
      split: list.splits if_splits prod.splits sum.splits option.splits
      dest!: readFunctionName_Inr)


lemma sort_map_mset_cong:
  fixes f :: "'a \<Rightarrow> string"
  assumes "mset rs' = mset rs"
  shows "sort (map f rs') = sort (map f rs)"
proof -
  have "mset (map f rs') = mset (map f rs)"
    using assms by (metis mset_map)
  then have "mset (sort (map f rs)) = mset (map f rs')" by simp
  then show ?thesis
    by (metis properties_for_sort sorted_sort)
qed

lemma functionHooksRead_same_lines:
  assumes "Get c = (\<lambda>u. Inr (map Some (rs u)))" and "Get c' = (\<lambda>u. Inr (map Some (rs' u)))"
    and "\<And>u. sort (map (functionHook_String D) (rs' u)) =
              sort (map (functionHook_String D) (rs u))"
  shows "fst (functionHooksRead D h (e\<lparr>ParseAPIClient := c'\<rparr>)) =
           fst (functionHooksRead D h (e\<lparr>ParseAPIClient := c\<rparr>)) \<and>
         trace (snd (functionHooksRead D h (e\<lparr>ParseAPIClient := c'\<rparr>))) =
           trace (snd (functionHooksRead D h (e\<lparr>ParseAPIClient := c\<rparr>)))"
  using assms
  by (auto simp add: functionHooksRead_def readFunctionName_def Fscanf_def client_Get_def
      Fprint_def render_results_Some zero_functionHook_def Let_def
      split: sum.splits list.splits)

lemma functionHooks_eq: "functionHooks D h e = functionHooksRead D (h\<lparr>All := True\<rparr>) e"
  by (simp add: functionHooks_def)

subsection \<open>The listing is sorted and independent of the order of the results\<close>

text \<open>
  Claim C1. Let the server answer the GET at every URL \<open>u\<close> with the hooks \<open>rs u\<close>
  (none of them nil). In read-all mode, once the collection URL parses, and in
  read-one mode, once a non-empty name is read and its URL parses, the read returns
  nil and prints, after the header, the newline-joined list of lines that are in
  lexicographic order and are, as a multiset, the \<^verbatim>\<open>String()\<close> renderings of the
  results of the request it made. When a second server answers every URL with a
  permutation \<open>rs' u\<close> of \<open>rs u\<close>, the read returns the same outcome and leaves
  the same trace (prompts, request, header and listing), whatever the command, the
  input and the mode.
\<close>

theorem listing_sorted_order_independent:
  assumes "\<And>u. mset (rs' u) = mset (rs u)"
    and "Get c = (\<lambda>u. Inr (map Some (rs u)))"
    and "Get c' = (\<lambda>u. Inr (map Some (rs' u)))"
  shows "fst (functionHooksRead D h (e\<lparr>ParseAPIClient := c'\<rparr>)) =
           fst (functionHooksRead D h (e\<lparr>ParseAPIClient := c\<rparr>)) \<and>
         trace (snd (functionHooksRead D h (e\<lparr>ParseAPIClient := c'\<rparr>))) =
           trace (snd (functionHooksRead D h (e\<lparr>ParseAPIClient := c\<rparr>))) \<and>
         (\<forall>u. All h \<and> url_Parse D defaultFunctionsURL = Inr u \<longrightarrow>
            (\<exists>lines.
               sorted lines \<and> mset lines = mset (map (functionHook_String D) (rs u)) \<and>
               functionHooksRead D h (e\<lparr>ParseAPIClient := c\<rparr>) =
                 (Ok, e\<lparr>ParseAPIClient := c,
                        trace := trace e @
                          [HttpGet u,
                           Printed Out (''The following cloudcode or webhook functions are associated with this app:'' @ nl),
                           Printed Out (strings_Join lines nl @ nl)]\<rparr>))) \<and>
         (\<forall>u name rest.
            \<not> All h \<and> In e = name # rest \<and> name \<noteq> [] \<and>
            url_Parse D (path_Join D defaultFunctionsURL name) = Inr u \<longrightarrow>
            (\<exists>lines.
               sorted lines \<and> mset lines = mset (map (functionHook_String D) (rs u)) \<and>
               functionHooksRead D h (e\<lparr>ParseAPIClient := c\<rparr>) =
                 (Ok, e\<lparr>In := rest, ParseAPIClient := c,
                        trace := trace e @
                          [Printed Out ''Please enter the function name: '',
                           HttpGet u,
                           Printed Out
                             (if length (rs u) = 1
                              then ''You have one function named: '' @ quote D name @ nl
                              else ''The following functions named: '' @ quote D name @
                                   '' are associated with your app:'' @ nl),
                           Printed Out (strings_Join lines nl @ nl)]\<rparr>)))"
proof -
  let ?e = "e\<lparr>ParseAPIClient := c\<rparr>"
  let ?lines = "\<lambda>u. sort (map (functionHook_String D) (rs u))"
  have g: "Get (ParseAPIClient ?e) u = Inr (map Some (rs u))" for u
    by (simp add: assms(2))
  have s: "sorted (?lines u)" "mset (?lines u) = mset (map (functionHook_String D) (rs u))" for u
    by simp_all
  have a: "\<exists>lines.
         sorted lines \<and> mset lines = mset (map (functionHook_String D) (rs u)) \<and>
         functionHooksRead D h ?e =
           (Ok, e\<lparr>ParseAPIClient := c,
                  trace := trace e @
                    [HttpGet u,
                     Printed Out (''The following cloudcode or webhook functions are associated with this app:'' @ nl),
                     Printed Out (strings_Join lines nl @ nl)]\<rparr>)"
    if "All h" and "url_Parse D defaultFunctionsURL = Inr u" for u
  proof -
    have "functionHooksRead D h ?e =
           (Ok, e\<lparr>ParseAPIClient := c,
                  trace := trace e @
                    [HttpGet u,
                     Printed Out (''The following cloudcode or webhook functions are associated with this app:'' @ nl),
                     Printed Out (strings_Join (?lines u) nl @ nl)]\<rparr>)"
      using functionHooksRead_run_all [OF that g] by simp
    with s [of u] show ?thesis by blast
  qed
  have b: "\<exists>lines.
         sorted lines \<and> mset lines = mset (map (functionHook_String D) (rs u)) \<and>
         functionHooksRead D h ?e =
           (Ok, e\<lparr>In := rest, ParseAPIClient := c,
                  trace := trace e @
                    [Printed Out ''Please enter the function name: '',
                     HttpGet u,
                     Printed Out
                       (if length (rs u) = 1
                        then ''You have one function named: '' @ quote D name @ nl
                        else ''The following functions named: '' @ quote D name @
                             '' are associated with your app:'' @ nl),
                     Printed Out (strings_Join lines nl @ nl)]\<rparr>)"
    if "\<not> All h" and "In e = name # rest" and "name \<noteq> []"
      and "url_Parse D (path_Join D defaultFunctionsURL name) = Inr u" for u name rest
  proof -
    have i: "In ?e = name # rest" using that(2) by simp
    have "functionHooksRead D h ?e =
           (Ok, e\<lparr>In := rest, ParseAPIClient := c,
                  trace := trace e @
                    [Printed Out ''Please enter the function name: '',
                     HttpGet u,
                     Printed Out
                       (if length (rs u) = 1
                        then ''You have one function named: '' @ quote D name @ nl
                        else ''The following functions named: '' @ quote D name @
                             '' are associated with your app:'' @ nl),
                     Printed Out (strings_Join (?lines u) nl @ nl)]\<rparr>)"
      using functionHooksRead_run_one [OF that(1) i that(3,4) g] by simp
    with s [of u] show ?thesis by blast
  qed
  from functionHooksRead_same_lines [OF assms(2,3) sort_map_mset_cong [OF assms(1)]] a b
  show ?thesis by blast
qed

theorem listing_sorted_order_independent_witness:
  "functionHooksRead sample_deps \<lparr>All = True, Function = None\<rparr>
      (sample_env []
         (sample_client
            [Some \<lparr>FunctionName = ''B'', URL = ''url2'', Warning = []\<rparr>,
             Some \<lparr>FunctionName = ''A'', URL = ''url1'', Warning = []\<rparr>] zero_functionHook)) =
     (Ok, \<lparr>In = [],
           ParseAPIClient =
             sample_client
               [Some \<lparr>FunctionName = ''B'', URL = ''url2'', Warning = []\<rparr>,
                Some \<lparr>FunctionName = ''A'', URL = ''url1'', Warning = []\<rparr>] zero_functionHook,
           trace =
             [HttpGet ''/1/hooks/functions'',
              Printed Out (''The following cloudcode or webhook functions are associated with this app:'' @ nl),
              Printed Out
                (''Function name: '' @ [CHR 0x22] @ ''A'' @ [CHR 0x22] @ '', URL: '' @
                   [CHR 0x22] @ ''url1'' @ [CHR 0x22] @ nl @
                 ''Function name: '' @ [CHR 0x22] @ ''B'' @ [CHR 0x22] @ '', URL: '' @
                   [CHR 0x22] @ ''url2'' @ [CHR 0x22] @ nl)]\<rparr>) \<and>
   trace (snd (functionHooksRead sample_deps \<lparr>All = True, Function = None\<rparr>
      (sample_env []
         (sample_client
            [Some \<lparr>FunctionName = ''A'', URL = ''url1'', Warning = []\<rparr>,
             Some \<lparr>FunctionName = ''B'', URL = ''url2'', Warning = []\<rparr>] zero_functionHook)))) =
   trace (snd (functionHooksRead sample_deps \<lparr>All = True, Function = None\<rparr>
      (sample_env []
         (sample_client
            [Some \<lparr>FunctionName = ''B'', URL = ''url2'', Warning = []\<rparr>,
             Some \<lparr>FunctionName = ''A'', URL = ''url1'', Warning = []\<rparr>] zero_functionHook)))) \<and>
   functionHooksRead sample_deps \<lparr>All = False, Function = None\<rparr>
      (sample_env [''A'']
         (sample_client
            [Some \<lparr>FunctionName = ''B'', URL = ''url2'', Warning = []\<rparr>,
             Some \<lparr>FunctionName = ''A'', URL = ''url1'', Warning = []\<rparr>] zero_functionHook)) =
     (Ok, \<lparr>In = [],
           ParseAPIClient =
             sample_client
               [Some \<lparr>FunctionName = ''B'', URL = ''url2'', Warning = []\<rparr>,
                Some \<lparr>FunctionName = ''A'', URL = ''url1'', Warning = []\<rparr>] zero_functionHook,
           trace =
             [Printed Out ''Please enter the function name: '',
              HttpGet ''/1/hooks/functions/A'',
              Printed Out (''The following functions named: '' @ [CHR 0x22] @ ''A'' @ [CHR 0x22] @
                           '' are associated with your app:'' @ nl),
              Printed Out
                (''Function name: '' @ [CHR 0x22] @ ''A'' @ [CHR 0x22] @ '', URL: '' @
                   [CHR 0x22] @ ''url1'' @ [CHR 0x22] @ nl @
                 ''Function name: '' @ [CHR 0x22] @ ''B'' @ [CHR 0x22] @ '', URL: '' @
                   [CHR 0x22] @ ''url2'' @ [CHR 0x22] @ nl)]\<rparr>) \<and>
   trace (snd (functionHooksRead sample_deps \<lparr>All = False, Function = None\<rparr>
      (sample_env [''A'']
         (sample_client
            [Some \<lparr>FunctionName = ''A'', URL = ''url1'', Warning = []\<rparr>,
             Some \<lparr>FunctionName = ''B'', URL = ''url2'', Warning = []\<rparr>] zero_functionHook)))) =
   trace (snd (functionHooksRead sample_deps \<lparr>All = False, Function = None\<rparr>
      (sample_env [''A'']
         (sample_client
            [Some \<lparr>FunctionName = ''B'', URL = ''url2'', Warning = []\<rparr>,
             Some \<lparr>FunctionName = ''A'', URL = ''url1'', Warning = []\<rparr>] zero_functionHook))))"
proof -
  let ?A = "\<lparr>FunctionName = ''A'', URL = ''url1'', Warning = []\<rparr>"
  let ?B = "\<lparr>FunctionName = ''B'', URL = ''url2'', Warning = []\<rparr>"
  let ?c = "sample_client [Some ?B, Some ?A] zero_functionHook"
  let ?c' = "sample_client [Some ?A, Some ?B] zero_functionHook"
  let ?z = "sample_client [] zero_functionHook"
  let ?la = "''Function name: '' @ [CHR 0x22] @ ''A'' @ [CHR 0x22] @ '', URL: '' @
               [CHR 0x22] @ ''url1'' @ [CHR 0x22]"
  let ?lb = "''Function name: '' @ [CHR 0x22] @ ''B'' @ [CHR 0x22] @ '', URL: '' @
               [CHR 0x22] @ ''url2'' @ [CHR 0x22]"
  have p: "mset ((\<lambda>u. [?A, ?B]) u) = mset ((\<lambda>u. [?B, ?A]) u)" for u :: string
    by simp
  have g: "Get ?c = (\<lambda>u. Inr (map Some ((\<lambda>u. [?B, ?A]) u)))"
    and g': "Get ?c' = (\<lambda>u. Inr (map Some ((\<lambda>u. [?A, ?B]) u)))"
    by (simp_all add: sample_client_def)
  have e: "(sample_env ins ?z)\<lparr>ParseAPIClient := k\<rparr> = sample_env ins k"
    for ins and k :: "string client"
    by (simp add: sample_env_def)
  have u1: "url_Parse sample_deps defaultFunctionsURL = Inr ''/1/hooks/functions''"
    and u2: "url_Parse sample_deps (path_Join sample_deps defaultFunctionsURL ''A'') =
               Inr ''/1/hooks/functions/A''"
    by (simp_all add: sample_deps_def defaultFunctionsURL_def)
  have r: "map (functionHook_String sample_deps) [?B, ?A] = [?lb, ?la]"
    by (simp add: functionHook_String_def sample_deps_def)
  have o: "sort [?lb, ?la] = [?la, ?lb]"
    by simp
  have l: "lines = [?la, ?lb]"
    if "sorted lines" and "mset lines = mset (map (functionHook_String sample_deps) [?B, ?A])"
    for lines
    using sort_Strings_unique [of lines "[?lb, ?la]"] that unfolding r o by simp
  note all = listing_sorted_order_independent [OF p g g', where D = sample_deps
      and h = "\<lparr>All = True, Function = None\<rparr>" and e = "sample_env [] ?z"]
  note one = listing_sorted_order_independent [OF p g g', where D = sample_deps
      and h = "\<lparr>All = False, Function = None\<rparr>" and e = "sample_env [''A''] ?z"]
  from all u1 obtain la where
    "sorted la" and "mset la = mset (map (functionHook_String sample_deps) [?B, ?A])"
    and ra: "functionHooksRead sample_deps \<lparr>All = True, Function = None\<rparr> (sample_env [] ?c) =
      (Ok, (sample_env [] ?z)\<lparr>ParseAPIClient := ?c,
         trace := trace (sample_env [] ?z) @
           [HttpGet ''/1/hooks/functions'',
            Printed Out (''The following cloudcode or webhook functions are associated with this app:'' @ nl),
            Printed Out (strings_Join la nl @ nl)]\<rparr>)"
    unfolding e by auto
  then have la: "la = [?la, ?lb]" using l by blast
  have i: "In (sample_env [''A''] ?z) = ''A'' # []" by (simp add: sample_env_def)
  from one u2 i obtain lo where
    "sorted lo" and "mset lo = mset (map (functionHook_String sample_deps) [?B, ?A])"
    and ro: "functionHooksRead sample_deps \<lparr>All = False, Function = None\<rparr> (sample_env [''A''] ?c) =
      (Ok, (sample_env [''A''] ?z)\<lparr>In := [], ParseAPIClient := ?c,
         trace := trace (sample_env [''A''] ?z) @
           [Printed Out ''Please enter the function name: '',
            HttpGet ''/1/hooks/functions/A'',
            Printed Out
              (if length [?B, ?A] = 1
               then ''You have one function named: '' @ quote sample_deps ''A'' @ nl
               else ''The following functions named: '' @ quote sample_deps ''A'' @
                    '' are associated with your app:'' @ nl),
            Printed Out (strings_Join lo nl @ nl)]\<rparr>)"
    unfolding e by auto
  then have lo: "lo = [?la, ?lb]" using l by blast
  from all one have
    "trace (snd (functionHooksRead sample_deps \<lparr>All = True, Function = None\<rparr> (sample_env [] ?c'))) =
     trace (snd (functionHooksRead sample_deps \<lparr>All = True, Function = None\<rparr> (sample_env [] ?c)))"
    and
    "trace (snd (functionHooksRead sample_deps \<lparr>All = False, Function = None\<rparr> (sample_env [''A''] ?c'))) =
     trace (snd (functionHooksRead sample_deps \<lparr>All = False, Function = None\<rparr> (sample_env [''A''] ?c)))"
    unfolding e by blast+
  with ra ro show ?thesis
    unfolding la lo by (simp add: sample_env_def sample_deps_def)
qed

subsection \<open>The header of the listing\<close>

text \<open>
  Claim C2. Let the GET at \<open>u\<close> return the hooks \<open>rs\<close> (none of them nil). The
  command \<^verbatim>\<open>functionHooks\<close> (read-all), and \<^verbatim>\<open>functionHooksRead\<close> when
  \<^verbatim>\<open>h.All\<close> is set, print the collective header and then the listing, whatever the
  number of results. With \<^verbatim>\<open>h.All\<close> unset and a non-empty name read, the header is
  the singular one naming the requested name when there is exactly one result, and the
  plural one otherwise, also with no result; with no result the joined listing is the
  empty string, so that only the newline of \<^verbatim>\<open>Fprintln\<close> follows the header.
\<close>

theorem read_header_selection:
  assumes "Get (ParseAPIClient e) u = Inr (map Some rs)"
  shows "(url_Parse D defaultFunctionsURL = Inr u \<longrightarrow>
            functionHooks D h e =
              (Ok, e\<lparr>trace := trace e @
                 [HttpGet u,
                  Printed Out (''The following cloudcode or webhook functions are associated with this app:'' @ nl),
                  Printed Out (strings_Join (sort (map (functionHook_String D) rs)) nl @ nl)]\<rparr>) \<and>
            (All h \<longrightarrow> functionHooksRead D h e = functionHooks D h e)) \<and>
         (\<not> All h \<and> In e = name # rest \<and> name \<noteq> [] \<and>
          url_Parse D (path_Join D defaultFunctionsURL name) = Inr u \<longrightarrow>
            functionHooksRead D h e =
              (Ok, e\<lparr>In := rest, trace := trace e @
                 [Printed Out ''Please enter the function name: '',
                  HttpGet u,
                  Printed Out
                    (if length rs = 1 then ''You have one function named: '' @ quote D name @ nl
                     else ''The following functions named: '' @ quote D name @
                          '' are associated with your app:'' @ nl),
                  Printed Out (strings_Join (sort (map (functionHook_String D) rs)) nl @ nl)]\<rparr>)) \<and>
         (rs = [] \<longrightarrow> strings_Join (sort (map (functionHook_String D) rs)) nl = [])"
proof -
  have "functionHooks D h e =
      (Ok, e\<lparr>trace := trace e @
         [HttpGet u,
          Printed Out (''The following cloudcode or webhook functions are associated with this app:'' @ nl),
          Printed Out (strings_Join (sort (map (functionHook_String D) rs)) nl @ nl)]\<rparr>)"
    if "url_Parse D defaultFunctionsURL = Inr u"
    using functionHooksRead_run_all [of "h\<lparr>All := True\<rparr>" D u e rs] that assms
    by (simp add: functionHooks_eq)
  moreover have "functionHooksRead D h e = functionHooks D h e" if "All h"
  proof -
    have "h\<lparr>All := True\<rparr> = h" using that by (cases h) simp
    then show ?thesis by (simp add: functionHooks_eq)
  qed
  moreover have "functionHooksRead D h e =
      (Ok, e\<lparr>In := rest, trace := trace e @
         [Printed Out ''Please enter the function name: '',
          HttpGet u,
          Printed Out
            (if length rs = 1 then ''You have one function named: '' @ quote D name @ nl
             else ''The following functions named: '' @ quote D name @
                  '' are associated with your app:'' @ nl),
          Printed Out (strings_Join (sort (map (functionHook_String D) rs)) nl @ nl)]\<rparr>)"
    if "\<not> All h" and "In e = name # rest" and "name \<noteq> []"
      and "url_Parse D (path_Join D defaultFunctionsURL name) = Inr u"
    by (rule functionHooksRead_run_one [OF that assms])
  ultimately show ?thesis by simp
qed

theorem read_header_selection_witness:
  "functionHooks sample_deps \<lparr>All = False, Function = None\<rparr>
     (sample_env [] (sample_client [Some \<lparr>FunctionName = ''foo'', URL = [], Warning = []\<rparr>]
        zero_functionHook)) =
     (Ok, \<lparr>In = [],
           ParseAPIClient =
             sample_client [Some \<lparr>FunctionName = ''foo'', URL = [], Warning = []\<rparr>] zero_functionHook,
           trace =
             [HttpGet ''/1/hooks/functions'',
              Printed Out (''The following cloudcode or webhook functions are associated with this app:'' @ nl),
              Printed Out (''Function name: '' @ [CHR 0x22] @ ''foo'' @ [CHR 0x22] @ nl)]\<rparr>) \<and>
   functionHooksRead sample_deps \<lparr>All = False, Function = None\<rparr>
     (sample_env [''foo''] (sample_client [Some \<lparr>FunctionName = ''foo'', URL = [], Warning = []\<rparr>]
        zero_functionHook)) =
     (Ok, \<lparr>In = [],
           ParseAPIClient =
             sample_client [Some \<lparr>FunctionName = ''foo'', URL = [], Warning = []\<rparr>] zero_functionHook,
           trace =
             [Printed Out ''Please enter the function name: '',
              HttpGet ''/1/hooks/functions/foo'',
              Printed Out (''You have one function named: '' @ [CHR 0x22] @ ''foo'' @ [CHR 0x22] @ nl),
              Printed Out (''Function name: '' @ [CHR 0x22] @ ''foo'' @ [CHR 0x22] @ nl)]\<rparr>) \<and>
   functionHooksRead sample_deps \<lparr>All = False, Function = None\<rparr>
     (sample_env [''foo''] (sample_client [] zero_functionHook)) =
     (Ok, \<lparr>In = [],
           ParseAPIClient = sample_client [] zero_functionHook,
           trace =
             [Printed Out ''Please enter the function name: '',
              HttpGet ''/1/hooks/functions/foo'',
              Printed Out (''The following functions named: '' @ [CHR 0x22] @ ''foo'' @ [CHR 0x22] @
                           '' are associated with your app:'' @ nl),
              Printed Out nl]\<rparr>) \<and>
   functionHooksRead sample_deps \<lparr>All = False, Function = None\<rparr>
     (sample_env [''foo'']
        (sample_client [Some \<lparr>FunctionName = ''foo'', URL = ''u'', Warning = []\<rparr>,
                        Some \<lparr>FunctionName = ''foo'', URL = [], Warning = []\<rparr>]
        zero_functionHook)) =
     (Ok, \<lparr>In = [],
           ParseAPIClient =
             sample_client [Some \<lparr>FunctionName = ''foo'', URL = ''u'', Warning = []\<rparr>,
                            Some \<lparr>FunctionName = ''foo'', URL = [], Warning = []\<rparr>]
               zero_functionHook,
           trace =
             [Printed Out ''Please enter the function name: '',
              HttpGet ''/1/hooks/functions/foo'',
              Printed Out (''The following functions named: '' @ [CHR 0x22] @ ''foo'' @ [CHR 0x22] @
                           '' are associated with your app:'' @ nl),
              Printed Out (''Function name: '' @ [CHR 0x22] @ ''foo'' @ [CHR 0x22] @ nl @
                           ''Function name: '' @ [CHR 0x22] @ ''foo'' @ [CHR 0x22] @ '', URL: '' @
                             [CHR 0x22] @ ''u'' @ [CHR 0x22] @ nl)]\<rparr>)"
proof -
  let ?h = "\<lparr>All = False, Function = None\<rparr>"
  let ?f = "\<lparr>FunctionName = ''foo'', URL = [], Warning = []\<rparr>"
  let ?g = "\<lparr>FunctionName = ''foo'', URL = ''u'', Warning = []\<rparr>"
  have g: "Get (ParseAPIClient (sample_env ins (sample_client (map Some rs) zero_functionHook))) u =
             Inr (map Some rs)" for ins rs and u :: string
    by (simp add: sample_env_def sample_client_def)
  have s: "sort (map (functionHook_String sample_deps) [?g, ?f]) =
             [''Function name: '' @ [CHR 0x22] @ ''foo'' @ [CHR 0x22],
              ''Function name: '' @ [CHR 0x22] @ ''foo'' @ [CHR 0x22] @ '', URL: '' @
                [CHR 0x22] @ ''u'' @ [CHR 0x22]]"
    by (simp add: functionHook_String_def sample_deps_def)
  from
    read_header_selection [OF g [of "[]" "[?f]"], where D = sample_deps and h = ?h
      and u = "''/1/hooks/functions''"]
    read_header_selection [OF g [of "[''foo'']" "[?f]"], where D = sample_deps
      and h = ?h and u = "''/1/hooks/functions/foo''" and name = "''foo''" and rest = "[]"]
    read_header_selection [OF g [of "[''foo'']" "[]"], where D = sample_deps
      and h = ?h and u = "''/1/hooks/functions/foo''" and name = "''foo''" and rest = "[]"]
    read_header_selection [OF g [of "[''foo'']" "[?g, ?f]"], where D = sample_deps
      and h = ?h and u = "''/1/hooks/functions/foo''" and name = "''foo''" and rest = "[]"]
    s
  show ?thesis
    by (simp add: sample_deps_def sample_env_def defaultFunctionsURL_def functionHook_String_def)
qed

subsection \<open>An empty function name\<close>

text \<open>
  Claim C3. In each of create, read-one, update and delete, when the scan for the
  function name finds no token, the workflow returns the error
  \<open>Function name cannot be empty\<close> and the requests in the trace are those that
  were there before: no \<^verbatim>\<open>Get\<close>, \<^verbatim>\<open>Post\<close> or \<^verbatim>\<open>Put\<close> is made.
\<close>

theorem empty_name_rejected:
  assumes "next_token e = []"
  shows "fst (functionHooksCreate D h e) = Failed ''Function name cannot be empty'' \<and>
         requests (trace (snd (functionHooksCreate D h e))) = requests (trace e) \<and>
         fst (functionHooksUpdate D h e) = Failed ''Function name cannot be empty'' \<and>
         requests (trace (snd (functionHooksUpdate D h e))) = requests (trace e) \<and>
         fst (functionHooksDelete D h e) = Failed ''Function name cannot be empty'' \<and>
         requests (trace (snd (functionHooksDelete D h e))) = requests (trace e) \<and>
         (\<not> All h \<longrightarrow>
            fst (functionHooksRead D h e) = Failed ''Function name cannot be empty'' \<and>
            requests (trace (snd (functionHooksRead D h e))) = requests (trace e))"
proof -
  obtain e1 where r: "readFunctionName e = (Inl ''Function name cannot be empty'', e1)"
    using readFunctionName_empty(1) [OF assms] by (metis fst_conv surjective_pairing)
  have t: "requests (trace e1) = requests (trace e)"
    using readFunctionName_Inl(2) [OF r] by (simp add: requests_def)
  have "functionHooksCreate D h e = (Failed ''Function name cannot be empty'', e1)"
    by (simp add: functionHooksCreate_def readFunctionParams_def r)
  moreover have "functionHooksUpdate D h e = (Failed ''Function name cannot be empty'', e1)"
    by (simp add: functionHooksUpdate_def readFunctionParams_def r)
  moreover have "functionHooksDelete D h e = (Failed ''Function name cannot be empty'', e1)"
    by (simp add: functionHooksDelete_def r)
  moreover have "\<not> All h \<Longrightarrow> functionHooksRead D h e = (Failed ''Function name cannot be empty'', e1)"
    by (simp add: functionHooksRead_def r)
  ultimately show ?thesis using t by simp
qed

theorem empty_name_rejected_witness:
  "next_token (sample_env [[], ''example.com''] (sample_client [] zero_functionHook)) = [] \<and>
   fst (functionHooksCreate sample_deps \<lparr>All = False, Function = None\<rparr>
          (sample_env [[], ''example.com''] (sample_client [] zero_functionHook)))
     = Failed ''Function name cannot be empty'' \<and>
   requests (trace (snd (functionHooksCreate sample_deps \<lparr>All = False, Function = None\<rparr>
          (sample_env [[], ''example.com''] (sample_client [] zero_functionHook))))) = [] \<and>
   fst (functionHooksUpdate sample_deps \<lparr>All = False, Function = None\<rparr>
          (sample_env [[], ''example.com''] (sample_client [] zero_functionHook)))
     = Failed ''Function name cannot be empty'' \<and>
   requests (trace (snd (functionHooksUpdate sample_deps \<lparr>All = False, Function = None\<rparr>
          (sample_env [[], ''example.com''] (sample_client [] zero_functionHook))))) = [] \<and>
   fst (functionHooksDelete sample_deps \<lparr>All = False, Function = None\<rparr>
          (sample_env [[], ''example.com''] (sample_client [] zero_functionHook)))
     = Failed ''Function name cannot be empty'' \<and>
   requests (trace (snd (functionHooksDelete sample_deps \<lparr>All = False, Function = None\<rparr>
          (sample_env [[], ''example.com''] (sample_client [] zero_functionHook))))) = [] \<and>
   fst (functionHooksRead sample_deps \<lparr>All = False, Function = None\<rparr>
          (sample_env [[], ''example.com''] (sample_client [] zero_functionHook)))
     = Failed ''Function name cannot be empty'' \<and>
   requests (trace (snd (functionHooksRead sample_deps \<lparr>All = False, Function = None\<rparr>
          (sample_env [[], ''example.com''] (sample_client [] zero_functionHook))))) = []"
proof -
  let ?e = "sample_env [[], ''example.com''] (sample_client [] zero_functionHook)"
  have n: "next_token ?e = []"
    by (simp add: next_token_def sample_env_def)
  have t: "requests (trace ?e) = []"
    by (simp add: sample_env_def requests_def)
  from empty_name_rejected [OF n, where D = sample_deps
      and h = "\<lparr>All = False, Function = None\<rparr>"] n t
  show ?thesis by simp
qed

subsection \<open>The URL that is validated\<close>

text \<open>
  Claim C4. After a non-empty name, \<^verbatim>\<open>readFunctionParams\<close> validates the text
  \<open>https://\<close> followed by the token it read: it returns the error of
  \<^verbatim>\<open>validateURL\<close> on that text, or else the hook with that text as its URL. When
  the validation fails, create and update return that error and make no request; when
  it passes, the prefixed text is the \<open>url\<close> that create posts. The witness runs
  the token \<open>example.com/x\<close>, validated and posted as \<open>https://example.com/x\<close>,
  and the empty token, which the sample validation rejects.
\<close>

theorem readFunctionParams_prefix_validated:
  assumes "In e = name # tok # rest" and "name \<noteq> []"
  shows "fst (readFunctionParams D e) =
           (case validateURL D (''https://'' @ tok) of
              Some err \<Rightarrow> Inl err
            | None \<Rightarrow> Inr \<lparr>FunctionName = name, URL = ''https://'' @ tok, Warning = []\<rparr>) \<and>
         (\<forall>err. validateURL D (''https://'' @ tok) = Some err \<longrightarrow>
            fst (functionHooksCreate D h e) = Failed err \<and>
            requests (trace (snd (functionHooksCreate D h e))) = requests (trace e) \<and>
            fst (functionHooksUpdate D h e) = Failed err \<and>
            requests (trace (snd (functionHooksUpdate D h e))) = requests (trace e)) \<and>
         (\<forall>u. validateURL D (''https://'' @ tok) = None \<and>
              url_Parse D defaultFunctionsURL = Inr u \<longrightarrow>
            requests (trace (snd (functionHooksCreate D h e))) =
              requests (trace e) @
              [HttpPost u [(''functionName'', name), (''url'', ''https://'' @ tok)]])"
proof -
  have p: "readFunctionParams D e =
    (case validateURL D (''https://'' @ tok) of
       Some err \<Rightarrow> Inl err
     | None \<Rightarrow> Inr \<lparr>FunctionName = name, URL = ''https://'' @ tok, Warning = []\<rparr>,
     e\<lparr>In := rest, trace := trace e @ [Printed Out ''Please enter the function name: '',
         Printed Out ''URL: https://'']\<rparr>)"
    by (rule readFunctionParams_ok [OF assms])
  have "fst (functionHooksCreate D h e) = Failed err \<and>
        requests (trace (snd (functionHooksCreate D h e))) = requests (trace e) \<and>
        fst (functionHooksUpdate D h e) = Failed err \<and>
        requests (trace (snd (functionHooksUpdate D h e))) = requests (trace e)"
    if v: "validateURL D (''https://'' @ tok) = Some err" for err
    using v by (simp add: functionHooksCreate_def functionHooksUpdate_def p requests_def)
  moreover have "requests (trace (snd (functionHooksCreate D h e))) =
      requests (trace e) @
      [HttpPost u [(''functionName'', name), (''url'', ''https://'' @ tok)]]"
    if "validateURL D (''https://'' @ tok) = None" and "url_Parse D defaultFunctionsURL = Inr u"
    for u
    using that
    by (simp add: functionHooksCreate_run [OF assms] requests_def split: sum.splits)
  ultimately show ?thesis by (simp add: p)
qed

theorem readFunctionParams_prefix_validated_witness:
  "fst (readFunctionParams sample_deps
          (sample_env [''foo'', ''example.com/x''] (sample_client [] zero_functionHook))) =
     Inr \<lparr>FunctionName = ''foo'', URL = ''https://example.com/x'', Warning = []\<rparr> \<and>
   validateURL sample_deps (''https://'' @ '''') = Some ''Please enter a valid https url'' \<and>
   fst (functionHooksCreate sample_deps \<lparr>All = False, Function = None\<rparr>
          (sample_env [''foo'', ''''] (sample_client [] zero_functionHook))) =
     Failed ''Please enter a valid https url'' \<and>
   requests (trace (snd (functionHooksCreate sample_deps \<lparr>All = False, Function = None\<rparr>
          (sample_env [''foo'', ''''] (sample_client [] zero_functionHook))))) = [] \<and>
   fst (functionHooksUpdate sample_deps \<lparr>All = False, Function = None\<rparr>
          (sample_env [''foo'', ''''] (sample_client [] zero_functionHook))) =
     Failed ''Please enter a valid https url'' \<and>
   requests (trace (snd (functionHooksUpdate sample_deps \<lparr>All = False, Function = None\<rparr>
          (sample_env [''foo'', ''''] (sample_client [] zero_functionHook))))) = [] \<and>
   requests (trace (snd (functionHooksCreate sample_deps \<lparr>All = False, Function = None\<rparr>
          (sample_env [''foo'', ''example.com/x''] (sample_client [] zero_functionHook))))) =
     [HttpPost ''/1/hooks/functions''
        [(''functionName'', ''foo''), (''url'', ''https://example.com/x'')]]"
proof -
  let ?c = "sample_client [] zero_functionHook"
  have u: "url_Parse sample_deps defaultFunctionsURL = Inr ''/1/hooks/functions''"
    by (simp add: sample_deps_def defaultFunctionsURL_def)
  have i: "In (sample_env [name, tok] ?c) = name # tok # []" for name tok
    by (simp add: sample_env_def)
  have n: "''foo'' \<noteq> []" by simp
  have v: "validateURL sample_deps (''https://'' @ '''') = Some ''Please enter a valid https url''"
    and v': "validateURL sample_deps (''https://'' @ ''example.com/x'') = None"
    by (simp_all add: sample_deps_def)
  have t: "requests (trace (sample_env ins ?c)) = []" for ins
    by (simp add: sample_env_def requests_def)
  from
    readFunctionParams_prefix_validated [OF i n, where D = sample_deps
      and h = "\<lparr>All = False, Function = None\<rparr>" and tok = "''example.com/x''"]
    readFunctionParams_prefix_validated [OF i n, where D = sample_deps
      and h = "\<lparr>All = False, Function = None\<rparr>" and tok = "''''"]
    v v' t u
  show ?thesis by simp
qed

subsection \<open>The confirmation of create and update\<close>



subsection \<open>The body of the update request\<close>

text \<open>
  Claim C6. When update has read its parameters and parsed the URL of
  \<^verbatim>\<open>path.Join(defaultFunctionsURL, params.FunctionName)\<close>, the one request it makes
  is a PUT to that URL whose body is the JSON object with the single member
  \<open>url\<close>: the name, which is not empty, and the warning are not in it.
\<close>

theorem update_sends_only_url:
  assumes "readFunctionParams D e = (Inr params, e1)"
    and "url_Parse D (path_Join D defaultFunctionsURL (FunctionName params)) = Inr u"
  shows "requests (trace (snd (functionHooksUpdate D h e))) =
           requests (trace e) @ [HttpPut u [(''url'', URL params)]] \<and>
         URL params \<noteq> [] \<and> FunctionName params \<noteq> []"
proof -
  have m: "marshal_functionHook (zero_functionHook\<lparr>URL := URL params\<rparr>) = [(''url'', URL params)]"
    and n: "URL params \<noteq> []"
    using readFunctionParams_Inr(2) [OF assms(1)]
    by (auto simp add: marshal_functionHook_def zero_functionHook_def)
  have t: "requests (trace e1) = requests (trace e)"
    by (simp add: readFunctionParams_Inr(6) [OF assms(1)] requests_def)
  have "requests (trace (snd (functionHooksUpdate D h e))) =
          requests (trace e1) @ [HttpPut u [(''url'', URL params)]]"
    by (simp add: functionHooksUpdate_def assms client_Put_def Fprint_def m requests_def Let_def
        split: sum.splits)
  with t n readFunctionParams_Inr(1) [OF assms(1)] show ?thesis by simp
qed

theorem update_sends_only_url_witness:
  "readFunctionParams sample_deps
     (sample_env [''foo'', ''example.com/x''] (sample_client [] zero_functionHook)) =
     (Inr \<lparr>FunctionName = ''foo'', URL = ''https://example.com/x'', Warning = []\<rparr>,
      \<lparr>In = [], ParseAPIClient = sample_client [] zero_functionHook,
        trace = [Printed Out ''Please enter the function name: '', Printed Out ''URL: https://'']\<rparr>) \<and>
   requests (trace (snd (functionHooksUpdate sample_deps \<lparr>All = False, Function = None\<rparr>
     (sample_env [''foo'', ''example.com/x''] (sample_client [] zero_functionHook))))) =
     [HttpPut ''/1/hooks/functions/foo'' [(''url'', ''https://example.com/x'')]]"
proof -
  let ?e = "sample_env [''foo'', ''example.com/x''] (sample_client [] zero_functionHook)"
  have p: "readFunctionParams sample_deps ?e =
     (Inr \<lparr>FunctionName = ''foo'', URL = ''https://example.com/x'', Warning = []\<rparr>,
      \<lparr>In = [], ParseAPIClient = sample_client [] zero_functionHook,
        trace = [Printed Out ''Please enter the function name: '', Printed Out ''URL: https://'']\<rparr>)"
    by (simp add: readFunctionParams_def readFunctionName_def Fscanf_def Fprint_def
        zero_functionHook_def sample_deps_def sample_env_def Let_def)
  have u: "url_Parse sample_deps
             (path_Join sample_deps defaultFunctionsURL
                (FunctionName \<lparr>FunctionName = ''foo'', URL = ''https://example.com/x'', Warning = []\<rparr>)) =
             Inr ''/1/hooks/functions/foo''"
    by (simp add: sample_deps_def defaultFunctionsURL_def)
  have t: "requests (trace ?e) = []"
    by (simp add: sample_env_def requests_def)
  from update_sends_only_url [OF p u, where h = "\<lparr>All = False, Function = None\<rparr>"] p t
  show ?thesis by simp
qed

subsection \<open>Delete, when the confirmation is declined\<close>

text \<open>
  Claim C7. After a non-empty name, when \<^verbatim>\<open>getConfirmation\<close> is asked (the URL of
  the function has been parsed before, or delete would have returned that error
  without asking) and answers no, delete returns nil and leaves the environment as
  \<^verbatim>\<open>getConfirmation\<close> left it: it adds no request, so when the confirmation itself
  made none, the requests in the trace are those that were there before.
\<close>

theorem delete_declined:
  assumes "In e = name # rest" and "name \<noteq> []"
    and "url_Parse D (path_Join D defaultFunctionsURL name) = Inr u"
    and "getConfirmation D
           (''Are you sure you want to delete webhook function: '' @ quote D name @ '' (y/n): '')
           (e\<lparr>In := rest, trace := trace e @ [Printed Out ''Please enter the function name: '']\<rparr>)
         = (False, e2)"
    and "requests (trace e2) = requests (trace e)"
  shows "functionHooksDelete D h e = (Ok, e2) \<and>
         requests (trace (snd (functionHooksDelete D h e))) = requests (trace e)"
  using assms(5) by (simp add: functionHooksDelete_run [OF assms(1-4)])

theorem delete_declined_witness:
  "functionHooksDelete sample_deps \<lparr>All = False, Function = None\<rparr>
     (sample_env [''foo'', ''n''] (sample_client [] zero_functionHook)) =
     (Ok, \<lparr>In = [], ParseAPIClient = sample_client [] zero_functionHook,
           trace =
             [Printed Out ''Please enter the function name: '',
              Printed Out (''Are you sure you want to delete webhook function: '' @ [CHR 0x22] @
                ''foo'' @ [CHR 0x22] @ '' (y/n): '')]\<rparr>) \<and>
   requests (trace (snd (functionHooksDelete sample_deps \<lparr>All = False, Function = None\<rparr>
     (sample_env [''foo'', ''n''] (sample_client [] zero_functionHook))))) = []"
proof -
  let ?c = "sample_client [] zero_functionHook"
  let ?e = "sample_env [''foo'', ''n''] ?c"
  let ?e2 = "\<lparr>In = [], ParseAPIClient = ?c,
           trace =
             [Printed Out ''Please enter the function name: '',
              Printed Out (''Are you sure you want to delete webhook function: '' @ [CHR 0x22] @
                ''foo'' @ [CHR 0x22] @ '' (y/n): '')]\<rparr>"
  have i: "In ?e = ''foo'' # [''n'']" by (simp add: sample_env_def)
  have n: "''foo'' \<noteq> []" by simp
  have u: "url_Parse sample_deps (path_Join sample_deps defaultFunctionsURL ''foo'') =
             Inr ''/1/hooks/functions/foo''"
    by (simp add: sample_deps_def defaultFunctionsURL_def)
  have g: "getConfirmation sample_deps
             (''Are you sure you want to delete webhook function: '' @ quote sample_deps ''foo'' @
              '' (y/n): '')
             (?e\<lparr>In := [''n''], trace := trace ?e @ [Printed Out ''Please enter the function name: '']\<rparr>)
           = (False, ?e2)"
    by (simp add: sample_deps_def sample_env_def Fscanf_def Fprint_def)
  have t: "requests (trace ?e2) = requests (trace ?e)"
    by (simp add: sample_env_def requests_def)
  have t0: "requests (trace ?e) = []"
    by (simp add: sample_env_def requests_def)
  from delete_declined [OF i n u g t, where h = "\<lparr>All = False, Function = None\<rparr>"] t0
  show ?thesis by (simp add: requests_def)
qed

subsection \<open>Delete, when the confirmation is accepted\<close>

text \<open>
  Claim C8. After a non-empty name, when \<^verbatim>\<open>getConfirmation\<close> answers yes, delete
  makes a PUT to the URL of \<^verbatim>\<open>path.Join(defaultFunctionsURL, name)\<close> with the body
  \<open>{"__op": "Delete"}\<close>. When the request fails it returns that error. When it
  succeeds it returns nil after printing the deletion confirmation with the name that
  was read and, when the \<open>FunctionName\<close> of the response is not empty, the notice
  that the cloud code function of that name will be used; for the empty response only
  the confirmation is printed.
\<close>

theorem delete_confirmed:
  assumes "In e = name # rest" and "name \<noteq> []"
    and "url_Parse D (path_Join D defaultFunctionsURL name) = Inr u"
    and "getConfirmation D
           (''Are you sure you want to delete webhook function: '' @ quote D name @ '' (y/n): '')
           (e\<lparr>In := rest, trace := trace e @ [Printed Out ''Please enter the function name: '']\<rparr>)
         = (True, e2)"
  shows "functionHooksDelete D h e =
    (case Put (ParseAPIClient e2) u [(''__op'', ''Delete'')] of
       Inl err \<Rightarrow> (Failed err, e2\<lparr>trace := trace e2 @ [HttpPut u [(''__op'', ''Delete'')]]\<rparr>)
     | Inr res \<Rightarrow>
         (Ok, e2\<lparr>trace := trace e2 @
            [HttpPut u [(''__op'', ''Delete'')],
             Printed Out (''Successfully deleted webhook function '' @ quote D name @ nl)] @
            (if FunctionName res \<noteq> []
             then [Printed Out (''Function '' @ quote D (FunctionName res) @
                     '' defined in cloud code will be used henceforth'' @ nl)]
             else [])\<rparr>))"
  by (simp add: functionHooksDelete_run [OF assms])

theorem delete_confirmed_witness:
  "functionHooksDelete sample_deps \<lparr>All = False, Function = None\<rparr>
     (sample_env [''foo'', ''y'']
        (sample_client [] \<lparr>FunctionName = ''foo'', URL = [], Warning = []\<rparr>)) =
     (Ok, \<lparr>In = [],
           ParseAPIClient = sample_client [] \<lparr>FunctionName = ''foo'', URL = [], Warning = []\<rparr>,
           trace =
             [Printed Out ''Please enter the function name: '',
              Printed Out (''Are you sure you want to delete webhook function: '' @ [CHR 0x22] @
                ''foo'' @ [CHR 0x22] @ '' (y/n): ''),
              HttpPut ''/1/hooks/functions/foo'' [(''__op'', ''Delete'')],
              Printed Out (''Successfully deleted webhook function '' @ [CHR 0x22] @ ''foo'' @
                [CHR 0x22] @ nl),
              Printed Out (''Function '' @ [CHR 0x22] @ ''foo'' @ [CHR 0x22] @
                '' defined in cloud code will be used henceforth'' @ nl)]\<rparr>) \<and>
   functionHooksDelete sample_deps \<lparr>All = False, Function = None\<rparr>
     (sample_env [''foo'', ''y''] (sample_client [] zero_functionHook)) =
     (Ok, \<lparr>In = [],
           ParseAPIClient = sample_client [] zero_functionHook,
           trace =
             [Printed Out ''Please enter the function name: '',
              Printed Out (''Are you sure you want to delete webhook function: '' @ [CHR 0x22] @
                ''foo'' @ [CHR 0x22] @ '' (y/n): ''),
              HttpPut ''/1/hooks/functions/foo'' [(''__op'', ''Delete'')],
              Printed Out (''Successfully deleted webhook function '' @ [CHR 0x22] @ ''foo'' @
                [CHR 0x22] @ nl)]\<rparr>)"
proof -
  let ?c = "sample_client [] \<lparr>FunctionName = ''foo'', URL = [], Warning = []\<rparr>"
  let ?z = "sample_client [] zero_functionHook"
  have i: "In (sample_env [''foo'', ''y''] c) = ''foo'' # [''y'']" for c :: "string client"
    by (simp add: sample_env_def)
  have n: "''foo'' \<noteq> []" by simp
  have u: "url_Parse sample_deps (path_Join sample_deps defaultFunctionsURL ''foo'') =
             Inr ''/1/hooks/functions/foo''"
    by (simp add: sample_deps_def defaultFunctionsURL_def)
  have g: "getConfirmation sample_deps
             (''Are you sure you want to delete webhook function: '' @ quote sample_deps ''foo'' @
              '' (y/n): '')
             ((sample_env [''foo'', ''y''] c)\<lparr>In := [''y''],
                trace := trace (sample_env [''foo'', ''y''] c) @
                  [Printed Out ''Please enter the function name: '']\<rparr>)
           = (True,
              \<lparr>In = [], ParseAPIClient = c,
               trace =
                 [Printed Out ''Please enter the function name: '',
                  Printed Out (''Are you sure you want to delete webhook function: '' @ [CHR 0x22] @
                    ''foo'' @ [CHR 0x22] @ '' (y/n): '')]\<rparr>)" for c :: "string client"
    by (simp add: sample_deps_def sample_env_def Fscanf_def Fprint_def)
  from
    delete_confirmed [OF i [of ?c] n u g [of ?c], where h = "\<lparr>All = False, Function = None\<rparr>"]
    delete_confirmed [OF i [of ?z] n u g [of ?z], where h = "\<lparr>All = False, Function = None\<rparr>"]
  show ?thesis
    by (simp add: sample_client_def sample_deps_def zero_functionHook_def)
qed

subsection \<open>The prefix is prepended to every token\<close>

text \<open>
  Claim C9. For every token \<open>t\<close> read after a non-empty name, the text handed to
  \<^verbatim>\<open>validateURL\<close> is \<open>https://\<close> followed by \<open>t\<close>, with no look at how \<open>t\<close>
  starts: \<^verbatim>\<open>readFunctionParams\<close> fails exactly with the error of the validation of
  that text, and when the validation passes, that text is the URL of the hook, the
  \<open>url\<close> that create posts and the \<open>url\<close> that update puts. The witness runs the
  token \<open>https://example.com\<close>, which the sample validation accepts and which is
  submitted as \<open>https://https://example.com\<close>.
\<close>

theorem url_prefix_unconditional:
  assumes "In e = name # t # rest" and "name \<noteq> []"
  shows "(\<forall>err. validateURL D (''https://'' @ t) = Some err \<longrightarrow>
            fst (readFunctionParams D e) = Inl err) \<and>
         (validateURL D (''https://'' @ t) = None \<longrightarrow>
            fst (readFunctionParams D e) =
              Inr \<lparr>FunctionName = name, URL = ''https://'' @ t, Warning = []\<rparr> \<and>
            (\<forall>u. url_Parse D defaultFunctionsURL = Inr u \<longrightarrow>
               requests (trace (snd (functionHooksCreate D h e))) =
                 requests (trace e) @
                 [HttpPost u [(''functionName'', name), (''url'', ''https://'' @ t)]]) \<and>
            (\<forall>u. url_Parse D (path_Join D defaultFunctionsURL name) = Inr u \<longrightarrow>
               requests (trace (snd (functionHooksUpdate D h e))) =
                 requests (trace e) @ [HttpPut u [(''url'', ''https://'' @ t)]]))"
proof -
  have "fst (readFunctionParams D e) = Inl err"
    if "validateURL D (''https://'' @ t) = Some err" for err
    using that by (simp add: readFunctionParams_ok [OF assms])
  moreover have "fst (readFunctionParams D e) =
      Inr \<lparr>FunctionName = name, URL = ''https://'' @ t, Warning = []\<rparr>"
    if "validateURL D (''https://'' @ t) = None"
    using that by (simp add: readFunctionParams_ok [OF assms])
  moreover have "requests (trace (snd (functionHooksCreate D h e))) =
      requests (trace e) @ [HttpPost u [(''functionName'', name), (''url'', ''https://'' @ t)]]"
    if "validateURL D (''https://'' @ t) = None" and "url_Parse D defaultFunctionsURL = Inr u" for u
    using that
    by (simp add: functionHooksCreate_run [OF assms] requests_def split: sum.splits)
  moreover have "requests (trace (snd (functionHooksUpdate D h e))) =
      requests (trace e) @ [HttpPut u [(''url'', ''https://'' @ t)]]"
    if "validateURL D (''https://'' @ t) = None"
      and "url_Parse D (path_Join D defaultFunctionsURL name) = Inr u" for u
    using that
    by (simp add: functionHooksUpdate_run [OF assms] requests_def split: sum.splits)
  ultimately show ?thesis by blast
qed

theorem url_prefix_unconditional_witness:
  "validateURL sample_deps (''https://'' @ ''https://example.com'') = None \<and>
   fst (readFunctionParams sample_deps
          (sample_env [''foo'', ''https://example.com''] (sample_client [] zero_functionHook))) =
     Inr \<lparr>FunctionName = ''foo'', URL = ''https://https://example.com'', Warning = []\<rparr> \<and>
   requests (trace (snd (functionHooksCreate sample_deps \<lparr>All = False, Function = None\<rparr>
          (sample_env [''foo'', ''https://example.com''] (sample_client [] zero_functionHook))))) =
     [HttpPost ''/1/hooks/functions''
        [(''functionName'', ''foo''), (''url'', ''https://https://example.com'')]] \<and>
   requests (trace (snd (functionHooksUpdate sample_deps \<lparr>All = False, Function = None\<rparr>
          (sample_env [''foo'', ''https://example.com''] (sample_client [] zero_functionHook))))) =
     [HttpPut ''/1/hooks/functions/foo'' [(''url'', ''https://https://example.com'')]]"
proof -
  let ?c = "sample_client [] zero_functionHook"
  have i: "In (sample_env [''foo'', ''https://example.com''] ?c) =
             ''foo'' # ''https://example.com'' # []"
    by (simp add: sample_env_def)
  have n: "''foo'' \<noteq> []" by simp
  have v: "validateURL sample_deps (''https://'' @ ''https://example.com'') = None"
    by (simp add: sample_deps_def)
  have u: "url_Parse sample_deps defaultFunctionsURL = Inr ''/1/hooks/functions''"
    and u': "url_Parse sample_deps (path_Join sample_deps defaultFunctionsURL ''foo'') =
               Inr ''/1/hooks/functions/foo''"
    by (simp_all add: sample_deps_def defaultFunctionsURL_def)
  have t: "requests (trace (sample_env ins ?c)) = []" for ins
    by (simp add: sample_env_def requests_def)
  from
    url_prefix_unconditional [OF i n, where D = sample_deps
      and h = "\<lparr>All = False, Function = None\<rparr>"]
    v u u' t
  show ?thesis by simp
qed

subsection \<open>Delete does not show a warning\<close>

text \<open>
  Claim C10. Take two runs of delete that read the same name, are confirmed and have
  the same trace after the confirmation, and whose PUT is answered with two hooks
  that have the same \<open>FunctionName\<close> and may differ in \<open>Warning\<close> (and
  \<open>URL\<close>). They return the same outcome and leave the same trace, and the texts on
  the error stream are those that were there after the confirmation: nothing is
  written that depends on the warning.
\<close>

theorem delete_ignores_warning:
  assumes "In e = name # rest" and "In e' = name # rest'" and "name \<noteq> []"
    and "url_Parse D (path_Join D defaultFunctionsURL name) = Inr u"
    and "getConfirmation D
           (''Are you sure you want to delete webhook function: '' @ quote D name @ '' (y/n): '')
           (e\<lparr>In := rest, trace := trace e @ [Printed Out ''Please enter the function name: '']\<rparr>)
         = (True, e2)"
    and "getConfirmation D
           (''Are you sure you want to delete webhook function: '' @ quote D name @ '' (y/n): '')
           (e'\<lparr>In := rest', trace := trace e' @ [Printed Out ''Please enter the function name: '']\<rparr>)
         = (True, e2')"
    and "trace e2' = trace e2"
    and "Put (ParseAPIClient e2) u [(''__op'', ''Delete'')] = Inr res"
    and "Put (ParseAPIClient e2') u [(''__op'', ''Delete'')] = Inr res'"
    and "FunctionName res' = FunctionName res"
  shows "fst (functionHooksDelete D h e') = fst (functionHooksDelete D h e) \<and>
         trace (snd (functionHooksDelete D h e')) = trace (snd (functionHooksDelete D h e)) \<and>
         printed_on Err (trace (snd (functionHooksDelete D h e))) = printed_on Err (trace e2)"
  using assms(7-10)
  by (simp add: functionHooksDelete_run [OF assms(1,3,4,5)]
      functionHooksDelete_run [OF assms(2,3,4,6)] printed_on_append)

theorem delete_ignores_warning_witness:
  "trace (snd (functionHooksDelete sample_deps \<lparr>All = False, Function = None\<rparr>
     (sample_env [''foo'', ''y'']
        (sample_client [] \<lparr>FunctionName = ''foo'', URL = [], Warning = []\<rparr>)))) =
   trace (snd (functionHooksDelete sample_deps \<lparr>All = False, Function = None\<rparr>
     (sample_env [''foo'', ''y'']
        (sample_client [] \<lparr>FunctionName = ''foo'', URL = ''x'', Warning = ''beware''\<rparr>)))) \<and>
   printed_on Err (trace (snd (functionHooksDelete sample_deps \<lparr>All = False, Function = None\<rparr>
     (sample_env [''foo'', ''y'']
        (sample_client [] \<lparr>FunctionName = ''foo'', URL = ''x'', Warning = ''beware''\<rparr>))))) = []"
proof -
  let ?r = "\<lparr>FunctionName = ''foo'', URL = ''x'', Warning = ''beware''\<rparr>"
  let ?r' = "\<lparr>FunctionName = ''foo'', URL = [], Warning = []\<rparr>"
  let ?t = "[Printed Out ''Please enter the function name: '',
             Printed Out (''Are you sure you want to delete webhook function: '' @ [CHR 0x22] @
               ''foo'' @ [CHR 0x22] @ '' (y/n): '')]"
  have i: "In (sample_env [''foo'', ''y''] c) = ''foo'' # [''y'']" for c :: "string client"
    by (simp add: sample_env_def)
  have n: "''foo'' \<noteq> []" by simp
  have u: "url_Parse sample_deps (path_Join sample_deps defaultFunctionsURL ''foo'') =
             Inr ''/1/hooks/functions/foo''"
    by (simp add: sample_deps_def defaultFunctionsURL_def)
  have g: "getConfirmation sample_deps
             (''Are you sure you want to delete webhook function: '' @ quote sample_deps ''foo'' @
              '' (y/n): '')
             ((sample_env [''foo'', ''y''] c)\<lparr>In := [''y''],
                trace := trace (sample_env [''foo'', ''y''] c) @
                  [Printed Out ''Please enter the function name: '']\<rparr>)
           = (True, \<lparr>In = [], ParseAPIClient = c, trace = ?t\<rparr>)" for c :: "string client"
    by (simp add: sample_deps_def sample_env_def Fscanf_def Fprint_def)
  have s: "trace \<lparr>In = [], ParseAPIClient = sample_client [] ?r', trace = ?t\<rparr> =
           trace \<lparr>In = [], ParseAPIClient = sample_client [] ?r, trace = ?t\<rparr>"
    by simp
  have p: "Put (ParseAPIClient \<lparr>In = [], ParseAPIClient = sample_client [] res, trace = ?t\<rparr>)
             ''/1/hooks/functions/foo'' [(''__op'', ''Delete'')] = Inr res" for res
    by (simp add: sample_client_def)
  have f: "FunctionName ?r' = FunctionName ?r" by simp
  from delete_ignores_warning [OF i [of "sample_client [] ?r"] i [of "sample_client [] ?r'"] n u
      g [of "sample_client [] ?r"] g [of "sample_client [] ?r'"] s p [of ?r] p [of ?r'] f,
      where h = "\<lparr>All = False, Function = None\<rparr>"]
  show ?thesis by simp
qed

end
